theory Spec2Isabelle
  imports Main
begin

section \<open>Python values\<close>

text \<open>
  The artwork records are JSON objects decoded by \<^verbatim>\<open>response.json()\<close>: dictionaries
  whose values are \<^verbatim>\<open>None\<close>, booleans, integers, strings, lists and nested
  dictionaries.  Dictionary keys are hashable values; the dictionaries are kept as
  association lists and looked up with Python's key equality, under which
  \<^verbatim>\<open>True == 1\<close> and \<^verbatim>\<open>False == 0\<close>.  Floating point numbers are not modelled.
\<close>

datatype pykey = KNone | KBool bool | KInt int | KStr string

datatype pyval =
    VNone
  | VBool bool
  | VInt int
  | VStr string
  | VList "pyval list"
  | VDict "(pykey \<times> pyval) list"

type_synonym pydict = "(pykey \<times> pyval) list"

text \<open>Uncaught exceptions of a run; \<^verbatim>\<open>exit(n)\<close> raises \<^verbatim>\<open>SystemExit\<close>.\<close>

datatype error = IndexError | TypeError | SystemExit int

text \<open>
  The status of the process when the exception reaches the top level: the argument of
  \<^verbatim>\<open>exit\<close>, and 1 for any other exception.
\<close>

fun exit_code :: "error \<Rightarrow> int" where
  "exit_code (SystemExit n) = n"
| "exit_code IndexError = 1"
| "exit_code TypeError = 1"

text \<open>Equality of two dictionary keys, as \<^verbatim>\<open>==\<close> decides it.\<close>

fun key_eq :: "pykey \<Rightarrow> pykey \<Rightarrow> bool" where
  "key_eq KNone KNone = True"
| "key_eq (KBool a) (KBool b) = (a = b)"
| "key_eq (KBool a) (KInt i) = (i = (if a then 1 else 0))"
| "key_eq (KInt i) (KBool a) = (i = (if a then 1 else 0))"
| "key_eq (KInt i) (KInt j) = (i = j)"
| "key_eq (KStr s) (KStr t) = (s = t)"
| "key_eq _ _ = False"

text \<open>\<^verbatim>\<open>d.get(k)\<close>: the value stored under \<^verbatim>\<open>k\<close>, and \<^verbatim>\<open>None\<close> for a missing key.\<close>

fun dict_get :: "pydict \<Rightarrow> pykey \<Rightarrow> pyval" where
  "dict_get [] k = VNone"
| "dict_get ((k', v) # d) k = (if key_eq k' k then v else dict_get d k)"

text \<open>The truth value of an object in an \<^verbatim>\<open>if\<close>.\<close>

fun truthy :: "pyval \<Rightarrow> bool" where
  "truthy VNone = False"
| "truthy (VBool b) = b"
| "truthy (VInt i) = (i \<noteq> 0)"
| "truthy (VStr s) = (s \<noteq> [])"
| "truthy (VList xs) = (xs \<noteq> [])"
| "truthy (VDict d) = (d \<noteq> [])"

text \<open>\<^verbatim>\<open>"..." == v\<close>: a string literal equals only a string with the same characters.\<close>

fun str_eq :: "string \<Rightarrow> pyval \<Rightarrow> bool" where
  "str_eq s (VStr t) = (s = t)"
| "str_eq s _ = False"

text \<open>\<^verbatim>\<open>len(v)\<close>: defined on strings, lists and dictionaries, a TypeError elsewhere.\<close>

fun py_len :: "pyval \<Rightarrow> error + nat" where
  "py_len (VStr s) = Inr (length s)"
| "py_len (VList xs) = Inr (length xs)"
| "py_len (VDict d) = Inr (length d)"
| "py_len _ = Inl TypeError"

text \<open>\<^verbatim>\<open>xs[i]\<close> for an index that is never negative.\<close>

definition subscript :: "'a list \<Rightarrow> nat \<Rightarrow> error + 'a" where
  "subscript xs i = (if i < length xs then Inr (xs ! i) else Inl IndexError)"

text \<open>
  \<^verbatim>\<open>random.choice(seq)\<close> is \<^verbatim>\<open>seq[randbelow(len(seq))]\<close> and raises IndexError on an
  empty sequence.  The generator's draw is the parameter \<open>r\<close>; every index below the
  length is the outcome of some draw.
\<close>

definition choice :: "nat \<Rightarrow> 'a list \<Rightarrow> error + 'a" where
  "choice r xs = (if xs = [] then Inl IndexError else Inr (xs ! (r mod length xs)))"

section \<open>fetch.py\<close>

definition NUM_RETRIES :: nat where
  "NUM_RETRIES = 3"

definition FUZZY_SEARCH_THRESHOLD :: nat where
  "FUZZY_SEARCH_THRESHOLD = 20"

text \<open>
  The expression assigned to \<^verbatim>\<open>object_id\<close> in \<^verbatim>\<open>main\<close>:
  \<^verbatim>\<open>object_ids[attempt] if not args.random else choice(object_ids[0:FUZZY_SEARCH_THRESHOLD])\<close>.
\<close>

definition select_object_id :: "bool \<Rightarrow> nat \<Rightarrow> int list \<Rightarrow> nat \<Rightarrow> error + int" where
  "select_object_id rnd r object_ids attempt =
     (if \<not> rnd then subscript object_ids attempt
      else choice r (take FUZZY_SEARCH_THRESHOLD object_ids))"

text \<open>
  \<^verbatim>\<open>check_if_exists\<close>: the loop over \<^verbatim>\<open>objects\<close> with the lookup
  \<^verbatim>\<open>obj.get("id" == obj_id)\<close>, whose key is the boolean value of the comparison.
\<close>

fun check_if_exists :: "pyval \<Rightarrow> pydict list \<Rightarrow> bool" where
  "check_if_exists obj_id [] = False"
| "check_if_exists obj_id (obj # objects) =
     (if truthy (dict_get obj (KBool (str_eq ''id'' obj_id))) then True
      else check_if_exists obj_id objects)"

text \<open>A record as the API returns it: every key is a string.\<close>

fun is_str_key :: "pykey \<Rightarrow> bool" where
  "is_str_key (KStr s) = True"
| "is_str_key _ = False"

definition string_keys :: "pydict \<Rightarrow> bool" where
  "string_keys d = list_all (\<lambda>kv. is_str_key (fst kv)) d"

text \<open>A record with an identifier, an image and a title, for the scenarios below.\<close>

definition artwork :: "int \<Rightarrow> pydict" where
  "artwork i =
     [(KStr ''objectID'', VInt i),
      (KStr ''primaryImage'', VStr ''https://images.metmuseum.org/a.jpg''),
      (KStr ''title'', VStr ''Untitled'')]"

section \<open>The collaborators\<close>

text \<open>
  What a run receives from outside: the parsed arguments, the identifiers the search
  returned, the draws of the random generator and the answers of the network.  The
  \<open>k\<close>-th call of \<^verbatim>\<open>get_artwork\<close> in a run is answered by \<open>details e k\<close>, so that
  the same identifier may be answered differently at different times; \<open>None\<close> stands
  for an exception raised by the request or by decoding its answer.
\<close>

record env =
  arg_random :: bool
  arg_report :: bool
  total_count :: int
  object_ids :: "int list"
  draw :: "nat \<Rightarrow> nat"
  details :: "nat \<Rightarrow> int \<Rightarrow> pydict option"
  download_ok :: "nat \<Rightarrow> bool"

text \<open>
  Modelled from the spec: \<^verbatim>\<open>get_artwork(object_id)\<close>, the one-argument function that
  \<^verbatim>\<open>main\<close> calls, is missing; api/met.py holds an earlier \<^verbatim>\<open>get_artwork(query, random)\<close>
  that searches and fetches in one call.  The spec's Artwork Source has
  \<^verbatim>\<open>fetch(identifier) -> ArtworkRecord\<close>, fatal to the process on failure.  The model
  keeps the shape of the function in api/met.py: the details request inside
  \<^verbatim>\<open>try\<close>, and \<^verbatim>\<open>exit(1)\<close> in the handler of every exception.
\<close>

definition get_artwork :: "env \<Rightarrow> nat \<Rightarrow> int \<Rightarrow> error + pydict" where
  "get_artwork e k object_id =
     (case details e k object_id of
        None \<Rightarrow> Inl (SystemExit 1)
      | Some details_response_data \<Rightarrow> Inr details_response_data)"

text \<open>
  Modelled from the spec: \<^verbatim>\<open>download_artwork(object_id, image_url, location)\<close>, the
  function that \<^verbatim>\<open>main\<close> calls with the keyword \<^verbatim>\<open>object_id\<close>, is missing; api/met.py
  holds an earlier \<^verbatim>\<open>download_artwork(id, image_url, location)\<close>, which has no such
  parameter, so that the call of \<^verbatim>\<open>main\<close> would raise a TypeError before its body and
  no record would ever be appended.  The spec's Image Sink has
  \<^verbatim>\<open>save(identifier, imageBytes, directory) -> success|fatal-error\<close>, fatal to the
  process on failure.  The model keeps the shape of the function in api/met.py: the
  download and the file write inside \<^verbatim>\<open>try\<close>, and \<^verbatim>\<open>exit(1)\<close> in the handler of
  every exception; whether the \<open>k\<close>-th attempt's download succeeds is
  \<open>download_ok e k\<close>.
\<close>

definition download_artwork :: "env \<Rightarrow> nat \<Rightarrow> error + unit" where
  "download_artwork e k = (if download_ok e k then Inr () else Inl (SystemExit 1))"

text \<open>
  The other collaborators of the loop are missing as well.  \<^verbatim>\<open>get_save_location\<close>,
  \<^verbatim>\<open>print_artwork\<close> and \<^verbatim>\<open>generate_report\<close> are taken to return;
  \<^verbatim>\<open>search_artwork\<close> and \<^verbatim>\<open>get_count_from_args\<close> are the fields \<open>object_ids\<close> and
  \<open>total_count\<close> of the environment.
\<close>

section \<open>The selection loop of main\<close>

text \<open>
  The condition \<^verbatim>\<open>image_url is None or len(image_url) == 0\<close>.
\<close>

definition missing_image :: "pyval \<Rightarrow> error + bool" where
  "missing_image image_url =
     (if image_url = VNone then Inr True
      else case py_len image_url of Inl err \<Rightarrow> Inl err | Inr n \<Rightarrow> Inr (n = 0))"

text \<open>
  The filter of an attempt: the two reads of the record, the call of
  \<^verbatim>\<open>check_if_exists\<close> and the \<^verbatim>\<open>if\<close>/\<^verbatim>\<open>elif\<close>/\<^verbatim>\<open>else\<close> chain that follows,
  with one verdict for each of its three branches.
\<close>

datatype verdict = MissingImage | AlreadyDownloaded | Accepted

definition filter_record :: "pydict \<Rightarrow> pydict list \<Rightarrow> error + verdict" where
  "filter_record artwork_rec viewed_list =
     (let image_url = dict_get artwork_rec (KStr ''primaryImage'');
          artwork_id = dict_get artwork_rec (KStr ''objectID'');
          has_already_been_downloaded = check_if_exists artwork_id viewed_list
      in case missing_image image_url of
           Inl err \<Rightarrow> Inl err
         | Inr True \<Rightarrow> Inr MissingImage
         | Inr False \<Rightarrow>
             if has_already_been_downloaded then Inr AlreadyDownloaded else Inr Accepted)"

text \<open>
  The points of \<^verbatim>\<open>main\<close> between which a step runs: the test of the outer
  \<^verbatim>\<open>while\<close>, the test of the inner \<^verbatim>\<open>while\<close>, the statement \<^verbatim>\<open>count += 1\<close>
  after the inner loop, and the end of the process with its exit status.
\<close>

datatype label = Outer | Inner | SlotEnd | Halted int

text \<open>What the run prints and writes, in order.\<close>

datatype event =
    Fetch int
  | SkipMissingImage pyval
  | SkipDownloaded pyval
  | Download pyval pyval
  | Report "pydict list"
  | SkipReport

record state =
  pc :: label
  count :: int
  attempt :: nat
  viewed :: "pydict list"
  fetches :: nat
  out :: "event list"

text \<open>The state after \<^verbatim>\<open>count = 0\<close>, \<^verbatim>\<open>viewed = []\<close> and the search.\<close>

definition init :: state where
  "init = \<lparr>pc = Outer, count = 0, attempt = 0, viewed = [], fetches = 0, out = []\<rparr>"

text \<open>
  One pass through the body of the inner loop: select, fetch, filter, and either count
  the attempt or download, append and \<^verbatim>\<open>break\<close>.  An exception ends the process
  where it is raised; nothing in \<^verbatim>\<open>main\<close> catches it.
\<close>

definition attempt_body :: "env \<Rightarrow> state \<Rightarrow> state" where
  "attempt_body e s =
     (case select_object_id (arg_random e) (draw e (fetches s)) (object_ids e) (attempt s) of
        Inl err \<Rightarrow> s\<lparr>pc := Halted (exit_code err)\<rparr>
      | Inr object_id \<Rightarrow>
          (let s1 = s\<lparr>fetches := Suc (fetches s), out := out s @ [Fetch object_id]\<rparr>
           in case get_artwork e (fetches s) object_id of
                Inl err \<Rightarrow> s1\<lparr>pc := Halted (exit_code err)\<rparr>
              | Inr artwork_rec \<Rightarrow>
                  (let image_url = dict_get artwork_rec (KStr ''primaryImage'');
                       artwork_id = dict_get artwork_rec (KStr ''objectID'')
                   in case filter_record artwork_rec (viewed s) of
                        Inl err \<Rightarrow> s1\<lparr>pc := Halted (exit_code err)\<rparr>
                      | Inr MissingImage \<Rightarrow>
                          s1\<lparr>attempt := attempt s + 1,
                             out := out s1 @ [SkipMissingImage artwork_id]\<rparr>
                      | Inr AlreadyDownloaded \<Rightarrow>
                          s1\<lparr>attempt := attempt s + 1,
                             out := out s1 @ [SkipDownloaded artwork_id]\<rparr>
                      | Inr Accepted \<Rightarrow>
                          (case download_artwork e (fetches s) of
                             Inl err \<Rightarrow> s1\<lparr>pc := Halted (exit_code err)\<rparr>
                           | Inr _ \<Rightarrow>
                               s1\<lparr>viewed := viewed s @ [artwork_rec],
                                  out := out s1 @ [Download artwork_id image_url],
                                  pc := SlotEnd\<rparr>))))"

definition step :: "env \<Rightarrow> state \<Rightarrow> state" where
  "step e s =
     (case pc s of
        Outer \<Rightarrow>
          if count s < total_count e then s\<lparr>attempt := 0, pc := Inner\<rparr>
          else s\<lparr>out := out s @ [if arg_report e then Report (viewed s) else SkipReport],
                 pc := Halted 0\<rparr>
      | Inner \<Rightarrow> if attempt s < NUM_RETRIES then attempt_body e s else s\<lparr>pc := SlotEnd\<rparr>
      | SlotEnd \<Rightarrow> s\<lparr>count := count s + 1, pc := Outer\<rparr>
      | Halted c \<Rightarrow> s)"

fun halted :: "state \<Rightarrow> bool" where
  "halted s = (case pc s of Halted c \<Rightarrow> True | _ \<Rightarrow> False)"

text \<open>
  The distance to the end of the process: the slots still to run, then the position
  inside the slot, then the attempts left in it.
\<close>

definition distance :: "env \<Rightarrow> state \<Rightarrow> nat" where
  "distance e s =
     (case pc s of
        Halted c \<Rightarrow> 0
      | Outer \<Rightarrow> if count s < total_count e then 7 * nat (total_count e - count s) + 6 else 1
      | Inner \<Rightarrow>
          (if count s < total_count e then 7 * nat (total_count e - count s) else 1)
            + 2 + (NUM_RETRIES - attempt s)
      | SlotEnd \<Rightarrow> if count s < total_count e then 7 * nat (total_count e - count s) + 1 else 2)"

lemma attempt_body_cases:
  "pc (attempt_body e s) = SlotEnd \<and> count (attempt_body e s) = count s
   \<or> (\<exists>c. pc (attempt_body e s) = Halted c)
   \<or> pc (attempt_body e s) = pc s \<and> count (attempt_body e s) = count s
       \<and> attempt (attempt_body e s) = attempt s + 1"
  by (simp add: attempt_body_def Let_def split: sum.splits verdict.splits)

lemma step_decreases: "\<not> halted s \<Longrightarrow> distance e (step e s) < distance e s"
proof (cases "pc s")
  case Outer
  then show ?thesis by (simp add: step_def distance_def NUM_RETRIES_def)
next
  case Inner
  show ?thesis
  proof (cases "attempt s < NUM_RETRIES")
    case True
    with Inner attempt_body_cases [of e s] show ?thesis
      by (auto simp: step_def distance_def)
  next
    case False
    with Inner show ?thesis by (simp add: step_def distance_def)
  qed
next
  case SlotEnd
  have "count s + 1 < total_count e \<Longrightarrow>
        nat (total_count e - count s) = Suc (nat (total_count e - (count s + 1)))"
    by arith
  with SlotEnd show ?thesis by (auto simp: step_def distance_def)
next
  case (Halted c)
  assume "\<not> halted s"
  with Halted show ?thesis by simp
qed

text \<open>The run from a state on, to the end of the process.\<close>

function run :: "env \<Rightarrow> state \<Rightarrow> state" where
  "run e s = (if halted s then s else run e (step e s))"
  by pat_completeness auto
termination
  by (relation "measure (\<lambda>(e, s). distance e s)") (simp_all add: step_decreases del: halted.simps)

text \<open>Every state the run passes through, the last one included.\<close>

function trace :: "env \<Rightarrow> state \<Rightarrow> state list" where
  "trace e s = (if halted s then [s] else s # trace e (step e s))"
  by pat_completeness auto
termination
  by (relation "measure (\<lambda>(e, s). distance e s)") (simp_all add: step_decreases del: halted.simps)

declare run.simps [simp del]
declare trace.simps [simp del]

definition main :: "env \<Rightarrow> state" where
  "main e = run e init"

text \<open>The identifiers a run has requested from the API so far, in order.\<close>

fun requested :: "event list \<Rightarrow> int list" where
  "requested [] = []"
| "requested (Fetch i # es) = i # requested es"
| "requested (ev # es) = requested es"


text \<open>A record without an image: the field is absent, \<^verbatim>\<open>null\<close> or the empty string.\<close>

definition lacks_image :: "pydict \<Rightarrow> bool" where
  "lacks_image a =
     (dict_get a (KStr ''primaryImage'') = VNone \<or> dict_get a (KStr ''primaryImage'') = VStr [])"

text \<open>The identifier field of a record.\<close>

definition object_id_of :: "pydict \<Rightarrow> pyval" where
  "object_id_of a = dict_get a (KStr ''objectID'')"


section \<open>Scenarios\<close>

text \<open>
  A record whose image field is the empty string, as the API sends it for a work
  without an image.
\<close>

definition imageless :: "int \<Rightarrow> pydict" where
  "imageless i =
     [(KStr ''objectID'', VInt i),
      (KStr ''primaryImage'', VStr []),
      (KStr ''title'', VStr ''Untitled'')]"

text \<open>
  A run without \<^verbatim>\<open>--random\<close> and without \<^verbatim>\<open>--report\<close>, in which every download
  succeeds and the answer to a details request depends on the identifier only.
\<close>

definition plain_env :: "int \<Rightarrow> int list \<Rightarrow> (int \<Rightarrow> pydict option) \<Rightarrow> env" where
  "plain_env n ids answer =
     \<lparr>arg_random = False, arg_report = False, total_count = n, object_ids = ids,
      draw = (\<lambda>k. 0), details = (\<lambda>k. answer), download_ok = (\<lambda>k. True)\<rparr>"

text \<open>Count 2, search result 1, 2, 3, 4, every work with an image.\<close>

definition env_two_slots :: env where
  "env_two_slots = plain_env 2 [1, 2, 3, 4] (\<lambda>i. Some (artwork i))"

text \<open>Count 1, search result 1, 2, 3, no work with an image.\<close>

definition env_no_images :: env where
  "env_no_images = plain_env 1 [1, 2, 3] (\<lambda>i. Some (imageless i))"

text \<open>Count 1, a search result of one identifier, whose work has no image.\<close>

definition env_short_list :: env where
  "env_short_list = plain_env 1 [1] (\<lambda>i. Some (imageless i))"

text \<open>Count 2, search result 1, 2, 3, every details request fails.\<close>

definition env_offline :: env where
  "env_offline = plain_env 2 [1, 2, 3] (\<lambda>i. None)"

text \<open>
  Count 1 with \<^verbatim>\<open>--random\<close>, search result 5, 6, 7, every work with an image; the
  generator's draws all select index 1 of the window.
\<close>

definition env_random :: env where
  "env_random =
     (plain_env 1 [5, 6, 7] (\<lambda>i. Some (artwork i)))\<lparr>arg_random := True, draw := (\<lambda>k. 4)\<rparr>"

section \<open>Candidate selection\<close>

lemma choice_member: "xs \<noteq> [] \<Longrightarrow> \<exists>x \<in> set xs. choice r xs = Inr x"
  by (simp add: choice_def)

section \<open>The duplicate check\<close>

lemma dict_get_bool_string_keys: "string_keys d \<Longrightarrow> dict_get d (KBool b) = VNone"
proof (induction d)
  case Nil
  show ?case by simp
next
  case (Cons kv d)
  obtain k v where kv: "kv = (k, v)" by (cases kv)
  from Cons.prems kv have "is_str_key k" and "string_keys d"
    by (simp_all add: string_keys_def)
  then show ?case using Cons.IH kv by (cases k) simp_all
qed

text \<open>
  C10: on records whose keys are all strings, \<^verbatim>\<open>check_if_exists\<close> returns False for
  every identifier and every list: the key it looks up is a boolean, which no string key
  equals, so \<^verbatim>\<open>get\<close> returns \<^verbatim>\<open>None\<close> for every record.
\<close>

theorem check_if_exists_never_reports:
  assumes "list_all string_keys objects"
  shows "check_if_exists obj_id objects = False"
  using assms
  by (induction objects) (simp_all add: dict_get_bool_string_keys)

theorem check_if_exists_never_reports_witness:
  "list_all string_keys [artwork 1] \<and> check_if_exists (VInt 1) [artwork 1] = False"
proof -
  have h: "list_all string_keys [artwork 1]"
    by (simp add: string_keys_def artwork_def)
  from check_if_exists_never_reports [OF h, of "VInt 1"] h show ?thesis by simp
qed

section \<open>Exceptions and exit codes\<close>





lemma get_artwork_error: "get_artwork e k i = Inl err \<Longrightarrow> err = SystemExit 1"
  by (auto simp: get_artwork_def split: option.splits)


section \<open>The steps of the loop\<close>







lemma run_from_trace: "s' \<in> set (trace e s) \<Longrightarrow> run e s' = run e s"
proof (induction e s rule: trace.induct)
  case (1 e s)
  show ?case
  proof (cases "halted s")
    case True
    with "1.prems" show ?thesis by (simp add: trace.simps [of e s] del: halted.simps)
  next
    case False
    with "1.prems" have "s' = s \<or> s' \<in> set (trace e (step e s))"
      by (simp add: trace.simps [of e s] del: halted.simps)
    with "1.IH" [OF False] False show ?thesis
      by (auto simp: run.simps [of e s] simp del: halted.simps)
  qed
qed




section \<open>Candidates of an attempt\<close>

lemma requested_append: "requested (xs @ ys) = requested xs @ requested ys"
  by (induction xs rule: requested.induct) simp_all

lemma take_window: "take (min FUZZY_SEARCH_THRESHOLD (length ids)) ids = take FUZZY_SEARCH_THRESHOLD ids"
  by (simp add: min_def)

lemma attempt_body_requested:
  "select_object_id (arg_random e) (draw e (fetches s)) (object_ids e) (attempt s) = Inr x \<Longrightarrow>
   requested (out (attempt_body e s)) = requested (out s) @ [x]"
  by (simp add: attempt_body_def Let_def requested_append split: sum.splits verdict.splits)

text \<open>
  C4: without \<^verbatim>\<open>--random\<close>, the candidate of attempt \<open>i\<close> is the identifier at
  index \<open>i\<close> of the search result, when \<open>i\<close> is within its bounds; and an attempt of
  the loop in such a state requests exactly that identifier.
\<close>

theorem nonrandom_selects_by_attempt:
  assumes "\<not> arg_random e" and "attempt s < length (object_ids e)"
  shows "select_object_id (arg_random e) (draw e (fetches s)) (object_ids e) (attempt s)
           = Inr (object_ids e ! attempt s)
         \<and> (pc s = Inner \<and> attempt s < NUM_RETRIES \<longrightarrow>
              requested (out (step e s)) = requested (out s) @ [object_ids e ! attempt s])"
proof -
  from assms
  have sel: "select_object_id (arg_random e) (draw e (fetches s)) (object_ids e) (attempt s)
               = Inr (object_ids e ! attempt s)"
    by (simp add: select_object_id_def subscript_def)
  from attempt_body_requested [OF sel] sel show ?thesis by (simp add: step_def)
qed

theorem nonrandom_selects_by_attempt_witness:
  "\<not> arg_random env_two_slots \<and> attempt init < length (object_ids env_two_slots)
   \<and> select_object_id (arg_random env_two_slots) (draw env_two_slots (fetches init))
        (object_ids env_two_slots) (attempt init) = Inr 1
   \<and> requested (out (step env_two_slots (step env_two_slots init))) = [1]"
proof -
  have h1: "\<not> arg_random env_two_slots" by (simp add: env_two_slots_def plain_env_def)
  have h2: "attempt init < length (object_ids env_two_slots)"
    by (simp add: env_two_slots_def plain_env_def init_def)
  have h3: "attempt (step env_two_slots init) < length (object_ids env_two_slots)"
    by (simp add: env_two_slots_def plain_env_def init_def step_def)
  have h4: "pc (step env_two_slots init) = Inner \<and> attempt (step env_two_slots init) < NUM_RETRIES"
    by (simp add: env_two_slots_def plain_env_def init_def step_def NUM_RETRIES_def)
  from nonrandom_selects_by_attempt [OF h1 h2] nonrandom_selects_by_attempt [OF h1 h3] h1 h2 h4
  show ?thesis
    by (simp add: env_two_slots_def plain_env_def init_def step_def)
qed

text \<open>
  C5: with \<^verbatim>\<open>--random\<close> and a search result of \<open>N > 0\<close> identifiers, the selection of
  every attempt succeeds, whatever the generator draws, and the candidate is one of the
  first \<open>min 20 N\<close> identifiers; an attempt of the loop requests exactly that candidate.
\<close>

theorem random_selects_in_window:
  assumes "arg_random e" and "object_ids e \<noteq> []"
  shows "\<exists>x. x \<in> set (take (min 20 (length (object_ids e))) (object_ids e))
           \<and> select_object_id (arg_random e) (draw e (fetches s)) (object_ids e) (attempt s) = Inr x
           \<and> (pc s = Inner \<and> attempt s < NUM_RETRIES \<longrightarrow>
                requested (out (step e s)) = requested (out s) @ [x])"
proof -
  let ?w = "take FUZZY_SEARCH_THRESHOLD (object_ids e)"
  from assms(2) have ne: "?w \<noteq> []" by (simp add: FUZZY_SEARCH_THRESHOLD_def)
  then obtain x where x: "x \<in> set ?w" and c: "choice (draw e (fetches s)) ?w = Inr x"
    using choice_member [of ?w "draw e (fetches s)"] by blast
  from assms(1) c
  have sel: "select_object_id (arg_random e) (draw e (fetches s)) (object_ids e) (attempt s) = Inr x"
    by (simp add: select_object_id_def)
  from x have "x \<in> set (take (min 20 (length (object_ids e))) (object_ids e))"
    using take_window [of "object_ids e"] by (simp add: FUZZY_SEARCH_THRESHOLD_def)
  with sel attempt_body_requested [OF sel] show ?thesis by (auto simp: step_def)
qed


theorem random_selects_in_window_witness:
  "arg_random env_random \<and> object_ids env_random \<noteq> []
   \<and> select_object_id (arg_random env_random) (draw env_random (fetches init))
        (object_ids env_random) (attempt init) = Inr 6
   \<and> 6 \<in> set (take (min 20 (length (object_ids env_random))) (object_ids env_random))"
proof -
  have h1: "arg_random env_random" by (simp add: env_random_def plain_env_def)
  have h2: "object_ids env_random \<noteq> []" by (simp add: env_random_def plain_env_def)
  have sel: "select_object_id (arg_random env_random) (draw env_random (fetches init))
        (object_ids env_random) (attempt init) = Inr 6"
    by (simp add: env_random_def plain_env_def select_object_id_def choice_def
        FUZZY_SEARCH_THRESHOLD_def)
  from random_selects_in_window [OF h1 h2, of init] sel h1 h2 show ?thesis by auto
qed

section \<open>Slots and the length of the list\<close>



text \<open>The definitions a run on concrete inputs unfolds.\<close>

lemmas eval_defs = main_def init_def plain_env_def step_def attempt_body_def
  select_object_id_def subscript_def choice_def get_artwork_def filter_record_def missing_image_def
  download_artwork_def artwork_def imageless_def NUM_RETRIES_def FUZZY_SEARCH_THRESHOLD_def Let_def



section \<open>Runs that end early or without a record\<close>

lemma lacks_image_verdict: "lacks_image a \<Longrightarrow> filter_record a vs = Inr MissingImage"
  by (auto simp: lacks_image_def filter_record_def missing_image_def Let_def)

text \<open>
  C7: count 1, no \<^verbatim>\<open>--random\<close>, search result 1, 2, 3, and the records of all three
  without an image: the slot requests 1, 2 and 3 and skips each, the three attempts of
  the budget are used up, the list stays empty and the process ends with
  \<^verbatim>\<open>sys.exit(0)\<close>, with or without \<^verbatim>\<open>--report\<close>.
\<close>

theorem no_images_exhausts_budget:
  assumes "lacks_image a1" and "lacks_image a2" and "lacks_image a3"
    and "answer 1 = Some a1" and "answer 2 = Some a2" and "answer 3 = Some a3"
  shows "main ((plain_env 1 [1, 2, 3] answer)\<lparr>arg_report := b\<rparr>) =
     \<lparr>pc = Halted 0, count = 1, attempt = 3, viewed = [], fetches = 3,
      out = [Fetch 1, SkipMissingImage (object_id_of a1),
             Fetch 2, SkipMissingImage (object_id_of a2),
             Fetch 3, SkipMissingImage (object_id_of a3),
             if b then Report [] else SkipReport]\<rparr>"
  using assms
  by (simp add: run.simps main_def init_def plain_env_def step_def attempt_body_def
      select_object_id_def subscript_def get_artwork_def lacks_image_verdict NUM_RETRIES_def
      Let_def object_id_of_def)

theorem no_images_exhausts_budget_witness:
  "lacks_image (imageless 1) \<and> lacks_image (imageless 2) \<and> lacks_image (imageless 3)
   \<and> main env_no_images =
     \<lparr>pc = Halted 0, count = 1, attempt = 3, viewed = [], fetches = 3,
      out = [Fetch 1, SkipMissingImage (VInt 1), Fetch 2, SkipMissingImage (VInt 2),
             Fetch 3, SkipMissingImage (VInt 3), SkipReport]\<rparr>"
proof -
  have l: "lacks_image (imageless i)" for i by (simp add: lacks_image_def imageless_def)
  have e: "(plain_env 1 [1, 2, 3] (\<lambda>i. Some (imageless i)))\<lparr>arg_report := False\<rparr>
           = env_no_images"
    by (simp add: env_no_images_def plain_env_def)
  from no_images_exhausts_budget
         [of "imageless 1" "imageless 2" "imageless 3" "\<lambda>i. Some (imageless i)" False] l e
  have "main env_no_images =
     \<lparr>pc = Halted 0, count = 1, attempt = 3, viewed = [], fetches = 3,
      out = [Fetch 1, SkipMissingImage (object_id_of (imageless 1)),
             Fetch 2, SkipMissingImage (object_id_of (imageless 2)),
             Fetch 3, SkipMissingImage (object_id_of (imageless 3)), SkipReport]\<rparr>"
    by simp
  with l show ?thesis by (simp add: object_id_of_def imageless_def)
qed

text \<open>
  C8: when \<^verbatim>\<open>get_artwork\<close> fails for the candidate of an attempt, at any point of any
  run, that step is the last one of the run: the process ends with status 1, the list,
  the slot counter and the attempt counter are what they were before the request, and
  the failing request is the last one made.
\<close>

theorem fetch_failure_is_fatal:
  assumes "s \<in> set (trace e init)" and "pc s = Inner" and "attempt s < NUM_RETRIES"
    and "select_object_id (arg_random e) (draw e (fetches s)) (object_ids e) (attempt s)
           = Inr object_id"
    and "get_artwork e (fetches s) object_id = Inl err"
  shows "main e = step e s
         \<and> step e s = s\<lparr>fetches := Suc (fetches s), out := out s @ [Fetch object_id],
                          pc := Halted 1\<rparr>
         \<and> pc (main e) = Halted 1 \<and> viewed (main e) = viewed s
         \<and> count (main e) = count s \<and> attempt (main e) = attempt s
         \<and> requested (out (main e)) = requested (out s) @ [object_id]"
proof -
  from assms(5) have err: "err = SystemExit 1" by (rule get_artwork_error)
  from assms(2-5) err
  have st: "step e s = s\<lparr>fetches := Suc (fetches s), out := out s @ [Fetch object_id],
                          pc := Halted 1\<rparr>"
    by (simp add: step_def attempt_body_def Let_def)
  then have "halted (step e s)" by simp
  then have "run e (step e s) = step e s" by (simp add: run.simps [of e "step e s"] del: halted.simps)
  moreover from assms(2) have "run e s = run e (step e s)" by (simp add: run.simps [of e s])
  moreover from assms(1) have "run e s = main e" by (simp add: main_def run_from_trace)
  ultimately have m: "main e = step e s" by simp
  with st show ?thesis by (simp add: requested_append)
qed

theorem fetch_failure_is_fatal_witness:
  "step env_offline init \<in> set (trace env_offline init)
   \<and> pc (step env_offline init) = Inner
   \<and> get_artwork env_offline (fetches (step env_offline init)) 1 = Inl (SystemExit 1)
   \<and> main env_offline = \<lparr>pc = Halted 1, count = 0, attempt = 0, viewed = [], fetches = 1,
                             out = [Fetch 1]\<rparr>"
proof -
  let ?s = "\<lparr>pc = Inner, count = 0, attempt = 0, viewed = [], fetches = 0, out = []\<rparr>"
  have s: "step env_offline init = ?s" by (simp add: env_offline_def eval_defs)
  have h1: "?s \<in> set (trace env_offline init)"
    by (simp add: env_offline_def trace.simps eval_defs)
  have h2: "pc ?s = Inner" by simp
  have h3: "attempt ?s < NUM_RETRIES" by (simp add: NUM_RETRIES_def)
  have h4: "select_object_id (arg_random env_offline) (draw env_offline (fetches ?s))
              (object_ids env_offline) (attempt ?s) = Inr 1"
    by (simp add: env_offline_def plain_env_def select_object_id_def subscript_def)
  have h5: "get_artwork env_offline (fetches ?s) 1 = Inl (SystemExit 1)"
    by (simp add: env_offline_def plain_env_def get_artwork_def)
  from fetch_failure_is_fatal [OF h1 h2 h3 h4 h5] h1 h5 s show ?thesis by simp
qed

section \<open>The filter\<close>

text \<open>
  C9: the verdict of the filter on a record is the same in any two states of a run that
  hold the same list, whatever else differs between them; and an attempt that rejects a
  record leaves the list as it was, so that the filter gives the same verdict on that
  record in the state after the attempt.
\<close>

theorem filter_verdict_repeats:
  "(viewed s1 = viewed s2 \<longrightarrow> filter_record a (viewed s1) = filter_record a (viewed s2))
   \<and> (pc s = Inner \<and> attempt s < NUM_RETRIES
        \<and> select_object_id (arg_random e) (draw e (fetches s)) (object_ids e) (attempt s)
            = Inr object_id
        \<and> get_artwork e (fetches s) object_id = Inr a
        \<and> filter_record a (viewed s) = Inr v \<and> v \<noteq> Accepted
      \<longrightarrow> viewed (step e s) = viewed s \<and> filter_record a (viewed (step e s)) = Inr v)"
  by (cases v) (auto simp: step_def attempt_body_def Let_def)

theorem filter_verdict_repeats_witness:
  "viewed (step env_no_images init) = viewed init
   \<and> pc (step env_no_images init) = Inner
   \<and> get_artwork env_no_images (fetches (step env_no_images init)) 1 = Inr (imageless 1)
   \<and> filter_record (imageless 1) (viewed init) = Inr MissingImage
   \<and> filter_record (imageless 1) (viewed (step env_no_images init)) = Inr MissingImage
   \<and> filter_record (imageless 1) (viewed (step env_no_images (step env_no_images init)))
       = Inr MissingImage"
proof -
  let ?s = "step env_no_images init"
  have h0: "viewed ?s = viewed init" by (simp add: env_no_images_def eval_defs)
  have h: "pc ?s = Inner \<and> attempt ?s < NUM_RETRIES
        \<and> select_object_id (arg_random env_no_images) (draw env_no_images (fetches ?s))
             (object_ids env_no_images) (attempt ?s) = Inr 1
        \<and> get_artwork env_no_images (fetches ?s) 1 = Inr (imageless 1)
        \<and> filter_record (imageless 1) (viewed ?s) = Inr MissingImage \<and> MissingImage \<noteq> Accepted"
    by (simp add: env_no_images_def eval_defs)
  from filter_verdict_repeats [of "?s" init "imageless 1" "?s" env_no_images 1 MissingImage] h h0
  show ?thesis by simp
qed

section \<open>Selection on short lists\<close>

text \<open>
  C3: on the search result of one identifier, shorter than the retry budget, the second
  attempt of a slot without \<^verbatim>\<open>--random\<close> reads index 1 and raises IndexError, where
  the selection with \<^verbatim>\<open>--random\<close> yields the identifier 1 for every draw.  In the run
  with count 1 in which the only work has no image, the first attempt is skipped and
  the second one ends the process with status 1, inside the slot and with one request
  made: the candidate is not offered again.
\<close>

theorem short_list_index_error:
  "length [1::int] < NUM_RETRIES
   \<and> select_object_id False r [1] 1 = Inl IndexError
   \<and> select_object_id True r [1] 1 = Inr 1
   \<and> main env_short_list =
       \<lparr>pc = Halted 1, count = 0, attempt = 1, viewed = [], fetches = 1,
        out = [Fetch 1, SkipMissingImage (VInt 1)]\<rparr>"
  by (simp add: env_short_list_def run.simps eval_defs)

section \<open>Duplicates in the list\<close>

text \<open>
  C1: \<^verbatim>\<open>check_if_exists\<close> does not find the identifier of a record in the list that
  holds this very record.  So with count 2, no \<^verbatim>\<open>--random\<close>, search result 1, 2, 3, 4,
  every work with an image and every download succeeding, the list at the end of the
  run holds two records with the identifier 1.
\<close>

theorem duplicate_identifier_in_viewed:
  "check_if_exists (object_id_of (artwork 1)) [artwork 1] = False
   \<and> map object_id_of (viewed (main env_two_slots)) = [VInt 1, VInt 1]
   \<and> \<not> distinct (map object_id_of (viewed (main env_two_slots)))"
  by (simp add: env_two_slots_def run.simps eval_defs object_id_of_def)

text \<open>
  C2: the filter accepts the record of identifier 1 against the list that holds it.  So
  in the same run the second slot requests identifier 1 again on its first attempt,
  nothing is skipped, the record is downloaded a second time, identifier 2 is never
  requested, and the list at the end is the record of 1 twice, not the records of 1
  and 2.
\<close>

theorem second_slot_accepts_first_again:
  "filter_record (artwork 1) [artwork 1] = Inr Accepted
   \<and> main env_two_slots =
     \<lparr>pc = Halted 0, count = 2, attempt = 0, viewed = [artwork 1, artwork 1], fetches = 2,
      out = [Fetch 1, Download (VInt 1) (VStr ''https://images.metmuseum.org/a.jpg''),
             Fetch 1, Download (VInt 1) (VStr ''https://images.metmuseum.org/a.jpg''),
             SkipReport]\<rparr>
   \<and> requested (out (main env_two_slots)) = [1, 1]
   \<and> viewed (main env_two_slots) \<noteq> [artwork 1, artwork 2]"
  by (simp add: env_two_slots_def run.simps eval_defs)

end
